theory Spec2Isabelle
  imports Complex_Main
begin

section \<open>The exam session of TestApp\<close>

text \<open>
  A shallow embedding of the class \<^verbatim>\<open>TestApp\<close> (the exam widget's script): its
  constructor, navigation, answer and review bookkeeping, the countdown, submission and
  scoring. Calls that only touch the page (rendering, class toggling, MathJax) are left out;
  every assignment to a field of \<^verbatim>\<open>this\<close> is kept, in the order of the source.

  Modelling decisions:
  \<^item> A JavaScript number is \<open>NaN\<close> or an exact rational; \<^verbatim>\<open>undefined\<close> turns into
    \<open>NaN\<close> under arithmetic, as in the language. Rounding of doubles is not modelled.
  \<^item> Indices are integers. An array that the code writes by index (\<^verbatim>\<open>ans\<close>,
    \<^verbatim>\<open>reviewed\<close>, \<^verbatim>\<open>timeSpent\<close>) is a function from the index to the slot; a slot
    that was never written reads \<^verbatim>\<open>undefined\<close>, and a write at any index just stores
    there, which is what a JavaScript array does.
  \<^item> \<^verbatim>\<open>Date.now()\<close> is an input: each operation takes the clock readings it makes, in
    milliseconds.
  \<^item> An uncaught \<^verbatim>\<open>TypeError\<close> ends the running handler; assignments made before it stay.
    Operations that can throw return the error (if any) together with the state they leave.
  \<^item> Fields of the payload that are present have their declared type; a missing field reads
    \<^verbatim>\<open>undefined\<close>. Every entry of \<^verbatim>\<open>questions\<close> is an object and the elements of
    the page exist, so the only errors are reads of a property of a question or config that
    is \<^verbatim>\<open>undefined\<close> or \<^verbatim>\<open>null\<close>.
\<close>

subsection \<open>Values\<close>

datatype jsnum = NaN | Num rat

datatype jsidx = Undefined | Null | Idx int

datatype error = TypeError

fun js_add :: "jsnum \<Rightarrow> jsnum \<Rightarrow> jsnum" where
  "js_add (Num a) (Num b) = Num (a + b)"
| "js_add _ _ = NaN"

fun js_sub :: "jsnum \<Rightarrow> jsnum \<Rightarrow> jsnum" where
  "js_sub (Num a) (Num b) = Num (a - b)"
| "js_sub _ _ = NaN"

fun js_mul :: "jsnum \<Rightarrow> jsnum \<Rightarrow> jsnum" where
  "js_mul (Num a) (Num b) = Num (a * b)"
| "js_mul _ _ = NaN"

text \<open>\<^verbatim>\<open>x <= 0\<close>: false when \<^verbatim>\<open>x\<close> is NaN.\<close>

fun js_le0 :: "jsnum \<Rightarrow> bool" where
  "js_le0 (Num a) = (a \<le> 0)"
| "js_le0 NaN = False"

text \<open>\<^verbatim>\<open>Math.max(0, x)\<close>: NaN when \<^verbatim>\<open>x\<close> is NaN.\<close>

fun js_max0 :: "jsnum \<Rightarrow> jsnum" where
  "js_max0 (Num a) = Num (max 0 a)"
| "js_max0 NaN = NaN"

text \<open>\<^verbatim>\<open>Math.round\<close> of a finite number: the nearest integer, halves upwards.\<close>

definition js_round :: "rat \<Rightarrow> int" where
  "js_round x = \<lfloor>x + 1 / 2\<rfloor>"

text \<open>A numeric property that may be missing, used as a number.\<close>

fun to_num :: "rat option \<Rightarrow> jsnum" where
  "to_num None = NaN"
| "to_num (Some r) = Num r"

text \<open>An array slot holding a number, used as a number.\<close>

fun slot_num :: "jsnum option \<Rightarrow> jsnum" where
  "slot_num None = NaN"
| "slot_num (Some x) = x"

subsection \<open>Payload: questions and config\<close>

record question =
  question :: string
  compq :: "string option"
  options :: "string list option"
  correct_option_id :: jsidx
  solution :: "string option"

record config =
  testName :: "string option"
  testId :: "string option"
  durationMinutes :: "rat option"
  totalMarks :: "rat option"
  marksPerQuestion :: "rat option"
  negativeMarking :: "rat option"
  nameDisplay :: "string option"

text \<open>What \<^verbatim>\<open>data.config\<close> can be after \<^verbatim>\<open>response.json()\<close>: absent, or any JSON value.\<close>

datatype cfgval =
    CUndefined
  | CNull
  | CBool bool
  | CNum rat
  | CStr string
  | CArr "cfgval list"
  | CObj config

record payload =
  data_config :: cfgval
  data_questions :: "question list"

text \<open>JavaScript truthiness, as \<^verbatim>\<open>||\<close> tests it.\<close>

fun truthy :: "cfgval \<Rightarrow> bool" where
  "truthy CUndefined = False"
| "truthy CNull = False"
| "truthy (CBool b) = b"
| "truthy (CNum r) = (r \<noteq> 0)"
| "truthy (CStr s) = (s \<noteq> [])"
| "truthy (CArr xs) = True"
| "truthy (CObj c) = True"

text \<open>
  Reading a property of the stored config: a truthy value that is not an object has no
  such property; \<^verbatim>\<open>null\<close> and \<^verbatim>\<open>undefined\<close> throw.
\<close>

fun cfg_read :: "(config \<Rightarrow> 'a option) \<Rightarrow> cfgval \<Rightarrow> error + 'a option" where
  "cfg_read f CUndefined = Inl TypeError"
| "cfg_read f CNull = Inl TypeError"
| "cfg_read f (CObj c) = Inr (f c)"
| "cfg_read f _ = Inr None"

fun num_prop :: "error + rat option \<Rightarrow> jsnum" where
  "num_prop (Inr v) = to_num v"
| "num_prop (Inl e) = NaN"

subsection \<open>The session state\<close>

record results =
  score :: jsnum
  correct :: nat
  incorrect :: nat
  unattempted :: nat
  timeTaken :: int

text \<open>
  The fields of \<^verbatim>\<open>this\<close>. \<open>timer\<close> says whether the interval set by
  \<^verbatim>\<open>startTimer\<close> is still scheduled; \<open>shown\<close> is what \<^verbatim>\<open>showResults\<close> last
  wrote to the results modal. \<^verbatim>\<open>sections\<close>, \<^verbatim>\<open>sectionTimer\<close> and
  \<^verbatim>\<open>currentSection\<close> stay \<^verbatim>\<open>null\<close> and are left out.
\<close>

record testApp =
  config :: cfgval
  qs :: "question list"
  curQ :: int
  ans :: "int \<Rightarrow> jsidx"
  reviewed :: "int \<Rightarrow> bool option"
  startT :: int
  timeLeft :: jsnum
  timeSpent :: "int \<Rightarrow> jsnum option"
  lastQTime :: int
  sub :: bool
  eng :: bool
  darkMode :: bool
  timer :: bool
  shown :: "results option"

definition in_range :: "testApp \<Rightarrow> int \<Rightarrow> bool" where
  "in_range s i = (0 \<le> i \<and> i < int (length (qs s)))"

subsection \<open>Construction\<close>

definition getDefaultConfig :: "question list option \<Rightarrow> config" where
  "getDefaultConfig qsopt =
     (let totalQ = (case qsopt of Some q \<Rightarrow> int (length q) | None \<Rightarrow> 0)
      in \<lparr> testName = Some ''General Mock Test'',
           testId = Some ''DEFAULT001'',
           durationMinutes = Some (if totalQ \<noteq> 0 then of_int totalQ else 34),
           totalMarks = Some (if totalQ \<noteq> 0 then of_int totalQ else 34),
           marksPerQuestion = Some 1,
           negativeMarking = Some (1 / 4),
           nameDisplay = Some ''User'' \<rparr>)"

text \<open>\<^verbatim>\<open>new Array(n).fill(v)\<close>.\<close>

definition filled :: "int \<Rightarrow> 'a \<Rightarrow> 'a \<Rightarrow> int \<Rightarrow> 'a" where
  "filled n v undef = (\<lambda>i. if 0 \<le> i \<and> i < n then v else undef)"

text \<open>
  The warnings of \<^verbatim>\<open>validateData\<close>: the (zero-based) indices it reports. The comparisons
  are JavaScript's: with \<^verbatim>\<open>undefined\<close> both are false, \<^verbatim>\<open>null\<close> compares as 0.
\<close>

fun id_out_of_bounds :: "jsidx \<Rightarrow> nat \<Rightarrow> bool" where
  "id_out_of_bounds (Idx c) n = (c < 0 \<or> c \<ge> int n)"
| "id_out_of_bounds Null n = (0 \<ge> int n)"
| "id_out_of_bounds Undefined n = False"

definition warnsQ :: "question \<Rightarrow> bool" where
  "warnsQ q = (case options q of None \<Rightarrow> False
               | Some opts \<Rightarrow> id_out_of_bounds (correct_option_id q) (length opts))"

definition validateData :: "question list \<Rightarrow> nat list" where
  "validateData questions = filter (\<lambda>idx. warnsQ (questions ! idx)) [0..<length questions]"

text \<open>
  The constructor; \<open>t0\<close> and \<open>t1\<close> are its two clock readings. The stored config is
  truthy, so reading its properties does not throw. Its call of \<^verbatim>\<open>validateData\<close> only
  logs.
\<close>

definition construct :: "int \<Rightarrow> int \<Rightarrow> payload \<Rightarrow> testApp" where
  "construct t0 t1 d =
     (let cfg = (if truthy (data_config d) then data_config d
                 else CObj (getDefaultConfig (Some (data_questions d))));
          totalQ = int (length (data_questions d))
      in \<lparr> config = cfg,
           qs = data_questions d,
           curQ = 0,
           ans = filled totalQ Null Undefined,
           reviewed = filled totalQ (Some False) None,
           startT = t0,
           timeLeft = js_mul (num_prop (cfg_read durationMinutes cfg)) (Num 60),
           timeSpent = filled totalQ (Some (Num 0)) None,
           lastQTime = t1,
           sub = False,
           eng = True,
           darkMode = False,
           timer = False,
           shown = None \<rparr>)"

subsection \<open>Loading a question, answering, reviewing, navigating\<close>

text \<open>\<^verbatim>\<open>this.timeSpent[this.curQ] += (now - this.lastQTime) / 1000\<close>.\<close>

definition addTime :: "int \<Rightarrow> testApp \<Rightarrow> testApp" where
  "addTime now s =
     s\<lparr>timeSpent := (timeSpent s)(curQ s :=
          Some (js_add (slot_num (timeSpent s (curQ s)))
                       (Num (of_int (now - lastQTime s) / 1000))))\<rparr>"

text \<open>
  \<^verbatim>\<open>loadQ\<close> throws at \<^verbatim>\<open>q.comp\<close> when \<^verbatim>\<open>this.qs[idx]\<close> is undefined, after the
  time has been recorded and \<^verbatim>\<open>curQ\<close> assigned.
\<close>

definition loadQ :: "int \<Rightarrow> int \<Rightarrow> testApp \<Rightarrow> error option \<times> testApp" where
  "loadQ now idx s =
     (let s1 = (if curQ s \<noteq> idx then (addTime now s)\<lparr>lastQTime := now\<rparr> else s);
          s2 = s1\<lparr>curQ := idx\<rparr>
      in (if in_range s2 idx then None else Some TypeError, s2))"

text \<open>
  \<^verbatim>\<open>selOpt\<close> re-renders the options of \<^verbatim>\<open>this.qs[qIdx]\<close>, which throws when there is
  no such question, after the answer has been stored.
\<close>

definition selOpt :: "int \<Rightarrow> int \<Rightarrow> testApp \<Rightarrow> error option \<times> testApp" where
  "selOpt optIdx qIdx s =
     (if sub s then (None, s)
      else let s1 = s\<lparr>ans := (ans s)(qIdx := (if ans s qIdx = Idx optIdx then Null else Idx optIdx))\<rparr>
           in (if in_range s1 qIdx then None else Some TypeError, s1))"

definition toggleReview :: "testApp \<Rightarrow> testApp" where
  "toggleReview s =
     (if sub s then s
      else s\<lparr>reviewed := (reviewed s)(curQ s := Some (\<not> (reviewed s (curQ s) = Some True)))\<rparr>)"

definition nav :: "int \<Rightarrow> int \<Rightarrow> testApp \<Rightarrow> error option \<times> testApp" where
  "nav now dir s =
     (let newIdx = curQ s + dir
      in if newIdx \<ge> 0 \<and> newIdx < int (length (qs s)) then loadQ now newIdx s else (None, s))"

definition goToQ :: "int \<Rightarrow> int \<Rightarrow> testApp \<Rightarrow> error option \<times> testApp" where
  "goToQ now idx s = loadQ now idx s"

definition setLang :: "int \<Rightarrow> bool \<Rightarrow> testApp \<Rightarrow> error option \<times> testApp" where
  "setLang now e s = (let s1 = s\<lparr>eng := e\<rparr> in loadQ now (curQ s1) s1)"

definition toggleTheme :: "int \<Rightarrow> testApp \<Rightarrow> error option \<times> testApp" where
  "toggleTheme now s = (let s1 = s\<lparr>darkMode := \<not> darkMode s\<rparr> in loadQ now (curQ s1) s1)"

subsection \<open>Scoring\<close>

text \<open>The body of the \<^verbatim>\<open>forEach\<close> in \<^verbatim>\<open>calcResults\<close>, on the running counters.\<close>

definition tallyQ :: "jsnum \<Rightarrow> jsnum \<Rightarrow> jsidx \<Rightarrow> jsidx \<Rightarrow> results \<Rightarrow> results" where
  "tallyQ marksPerQ negMark userAns correctAns r =
     (if userAns = Null \<or> userAns = Undefined then
        r\<lparr>unattempted := unattempted r + 1\<rparr>
      else if correctAns \<noteq> Undefined \<and> correctAns \<noteq> Null \<and> userAns = correctAns then
        r\<lparr>correct := correct r + 1, score := js_add (score r) marksPerQ\<rparr>
      else
        r\<lparr>incorrect := incorrect r + 1, score := js_sub (score r) negMark\<rparr>)"

text \<open>\<^verbatim>\<open>array.forEach((q, i) => ...)\<close> from index \<open>i\<close> on, threading what the callback updates.\<close>

fun forEachQ :: "('q \<Rightarrow> nat \<Rightarrow> 'a \<Rightarrow> 'a) \<Rightarrow> 'q list \<Rightarrow> nat \<Rightarrow> 'a \<Rightarrow> 'a" where
  "forEachQ f [] i a = a"
| "forEachQ f (q # rest) i a = forEachQ f rest (Suc i) (f q i a)"

definition calcResults :: "int \<Rightarrow> testApp \<Rightarrow> error + results" where
  "calcResults now s =
     (let tt = js_round (of_int (now - startT s) / 60000)
      in case cfg_read marksPerQuestion (config s) of
           Inl e \<Rightarrow> Inl e
         | Inr mp \<Rightarrow>
            (case cfg_read negativeMarking (config s) of
               Inl e \<Rightarrow> Inl e
             | Inr nm \<Rightarrow>
                (let marksPerQ = to_num mp;
                     negMark = to_num nm;
                     r = forEachQ (\<lambda>q i. tallyQ marksPerQ negMark (ans s (int i)) (correct_option_id q))
                           (qs s) 0
                           \<lparr>score = Num 0, correct = 0, incorrect = 0, unattempted = 0, timeTaken = tt\<rparr>
                 in Inr (r\<lparr>score := js_max0 (score r)\<rparr>))))"

definition showResults :: "results \<Rightarrow> testApp \<Rightarrow> testApp" where
  "showResults r s = s\<lparr>shown := Some r\<rparr>"

subsection \<open>The countdown and submission\<close>

definition startTimer :: "testApp \<Rightarrow> testApp" where
  "startTimer s = s\<lparr>timer := True\<rparr>"

definition stopTimers :: "testApp \<Rightarrow> testApp" where
  "stopTimers s = s\<lparr>timer := False\<rparr>"

text \<open>
  \<^verbatim>\<open>subTest\<close> reads the clock once itself (\<open>now\<close>) and once in \<^verbatim>\<open>calcResults\<close>
  (\<open>now2\<close>); its final \<^verbatim>\<open>loadQ(this.curQ)\<close> reloads the current question.
\<close>

definition subTest :: "int \<Rightarrow> int \<Rightarrow> testApp \<Rightarrow> error option \<times> testApp" where
  "subTest now now2 s =
     (if sub s then (None, s)
      else let s1 = addTime now s;
               s2 = stopTimers (s1\<lparr>sub := True\<rparr>)
           in case calcResults now2 s2 of
                Inl e \<Rightarrow> (Some e, s2)
              | Inr r \<Rightarrow> (let s3 = showResults r s2 in loadQ now2 (curQ s3) s3))"

definition confirmSub :: "bool \<Rightarrow> int \<Rightarrow> int \<Rightarrow> testApp \<Rightarrow> error option \<times> testApp" where
  "confirmSub confirmed now now2 s = (if confirmed then subTest now now2 s else (None, s))"

text \<open>The callback that \<^verbatim>\<open>startTimer\<close> schedules every second.\<close>

definition tick :: "int \<Rightarrow> int \<Rightarrow> testApp \<Rightarrow> error option \<times> testApp" where
  "tick now now2 s =
     (let s1 = s\<lparr>timeLeft := js_sub (timeLeft s) (Num 1)\<rparr>
      in if js_le0 (timeLeft s1) then subTest now now2 (s1\<lparr>timer := False\<rparr>)
         else (None, s1))"

definition review :: "int \<Rightarrow> testApp \<Rightarrow> error option \<times> testApp" where
  "review now s = loadQ now 0 s"

text \<open>\<^verbatim>\<open>init\<close>, run once by the start button, before any other handler is attached.\<close>

definition init :: "int \<Rightarrow> testApp \<Rightarrow> error option \<times> testApp" where
  "init now s = loadQ now 0 (startTimer s)"

subsection \<open>Events\<close>

text \<open>
  The handlers that change the session: the buttons wired by \<^verbatim>\<open>setupEvents\<close>, the
  grid cells, the option rows and the interval. \<open>ConfirmSub b\<close> carries the user's reply to
  the confirmation dialog. The interval's callback runs only while it is scheduled.
\<close>

datatype event =
    Nav int
  | GoToQ int
  | SelOpt int int
  | ToggleReview
  | SetLang bool
  | ToggleTheme
  | Tick
  | ConfirmSub bool
  | Review

fun handle :: "int \<Rightarrow> int \<Rightarrow> event \<Rightarrow> testApp \<Rightarrow> error option \<times> testApp" where
  "handle now now2 (Nav dir) s = nav now dir s"
| "handle now now2 (GoToQ idx) s = goToQ now idx s"
| "handle now now2 (SelOpt optIdx qIdx) s = selOpt optIdx qIdx s"
| "handle now now2 ToggleReview s = (None, toggleReview s)"
| "handle now now2 (SetLang e) s = setLang now e s"
| "handle now now2 ToggleTheme s = toggleTheme now s"
| "handle now now2 Tick s = (if timer s then tick now now2 s else (None, s))"
| "handle now now2 (ConfirmSub b) s = confirmSub b now now2 s"
| "handle now now2 Review s = review now s"

text \<open>The state an event leaves; an uncaught error is logged by the browser and the page lives on.\<close>

definition step :: "int \<times> int \<times> event \<Rightarrow> testApp \<Rightarrow> testApp" where
  "step te s = (case te of (now, now2, e) \<Rightarrow> snd (handle now now2 e s))"

fun run :: "(int \<times> int \<times> event) list \<Rightarrow> testApp \<Rightarrow> testApp" where
  "run [] s = s"
| "run (te # rest) s = run rest (step te s)"

text \<open>
  What the rendered page can deliver in state \<open>s\<close>: previous and next, a grid cell (one per
  question), an option row of the question on screen (rows get a click handler only before
  submission), and the buttons.
\<close>

fun wired :: "testApp \<Rightarrow> event \<Rightarrow> bool" where
  "wired s (Nav dir) = (dir = 1 \<or> dir = - 1)"
| "wired s (GoToQ idx) = in_range s idx"
| "wired s (SelOpt optIdx qIdx) =
     (\<not> sub s \<and> qIdx = curQ s \<and> in_range s qIdx \<and>
      (case options (qs s ! nat qIdx) of None \<Rightarrow> False
       | Some opts \<Rightarrow> 0 \<le> optIdx \<and> optIdx < int (length opts)))"
| "wired s _ = True"

fun wired_run :: "(int \<times> int \<times> event) list \<Rightarrow> testApp \<Rightarrow> bool" where
  "wired_run [] s = True"
| "wired_run (te # rest) s = (wired s (snd (snd te)) \<and> wired_run rest (step te s))"





subsection \<open>Counting the outcomes of the questions\<close>






subsection \<open>Answers the page can produce\<close>

text \<open>
  An answer slot is valid for its question when it is null or the index of one of the
  question's options: an option row passes its own index to \<^verbatim>\<open>selOpt\<close>.
\<close>

definition slotValid :: "question \<Rightarrow> jsidx \<Rightarrow> bool" where
  "slotValid q u =
     (case u of Null \<Rightarrow> True | Undefined \<Rightarrow> False
      | Idx a \<Rightarrow> (case options q of None \<Rightarrow> False
                  | Some opts \<Rightarrow> 0 \<le> a \<and> a < int (length opts)))"

subsection \<open>Example payloads and sessions\<close>

definition exQ :: "jsidx \<Rightarrow> question" where
  "exQ c = \<lparr>question = ''Q'', compq = None, options = Some [''A'', ''B'', ''C'', ''D''],
            correct_option_id = c, solution = None\<rparr>"




definition exData40 :: payload where
  "exData40 = \<lparr>data_config = CUndefined, data_questions = replicate 40 (exQ (Idx 0))\<rparr>"

definition exPartialCfg :: config where
  "exPartialCfg = \<lparr>testName = Some ''Partial'', testId = None, durationMinutes = None,
                   totalMarks = None, marksPerQuestion = None, negativeMarking = None,
                   nameDisplay = None\<rparr>"

definition exDataPartial :: payload where
  "exDataPartial = \<lparr>data_config = CObj exPartialCfg, data_questions = [exQ (Idx 0)]\<rparr>"

definition exDataNull :: payload where
  "exDataNull = \<lparr>data_config = CNull, data_questions = [exQ (Idx 0)]\<rparr>"

text \<open>Two questions and no config; the session once the start button has run \<^verbatim>\<open>init\<close>.\<close>

definition exData2 :: payload where
  "exData2 = \<lparr>data_config = CUndefined, data_questions = [exQ (Idx 0), exQ (Idx 1)]\<rparr>"

definition exStart2 :: testApp where
  "exStart2 = snd (init 0 (construct 0 0 exData2))"

definition exSubmitted2 :: testApp where
  "exSubmitted2 = step (5000, 5000, ConfirmSub True) exStart2"

text \<open>A question whose correct id points past its four options.\<close>

definition exDataBad :: payload where
  "exDataBad = \<lparr>data_config = CUndefined, data_questions = [exQ (Idx 7)]\<rparr>"

definition exBadStart :: testApp where
  "exBadStart = snd (init 0 (construct 0 0 exDataBad))"

text \<open>A walk through the two-question session, using only what the page offers.\<close>

definition exTour :: "(int \<times> int \<times> event) list" where
  "exTour = [(1000, 1000, Nav (- 1)), (2000, 2000, Nav 1), (3000, 3000, SelOpt 2 1),
             (4000, 4000, Nav 1), (5000, 5000, GoToQ 0), (6000, 6000, ConfirmSub True),
             (7000, 7000, Review)]"


section \<open>Properties\<close>

subsection \<open>Shared facts\<close>

lemma js_round_0: "js_round 0 = 0"
  unfolding js_round_def by (simp add: floor_eq_iff)

lemma sub_loadQ: "sub (snd (loadQ now idx s)) = sub s"
  by (simp add: loadQ_def addTime_def Let_def)

lemma sub_subTest: "sub (snd (subTest now now2 s))"
  by (simp add: subTest_def Let_def stopTimers_def addTime_def showResults_def sub_loadQ
      split: sum.splits)

lemma subTest_noop: "sub s \<Longrightarrow> subTest now now2 s = (None, s)"
  by (simp add: subTest_def)

lemma sub_handle: "sub s \<Longrightarrow> sub (snd (handle now now2 e s))"
  by (cases e)
     (simp_all add: nav_def goToQ_def selOpt_def toggleReview_def setLang_def toggleTheme_def
        tick_def confirmSub_def review_def sub_loadQ sub_subTest Let_def)

lemma sub_step: "sub s \<Longrightarrow> sub (step te s)"
  by (cases te) (simp add: step_def sub_handle)

lemma sub_run: "sub s \<Longrightarrow> sub (run es s)"
  by (induction es arbitrary: s) (simp_all add: sub_step)

subsection \<open>Scoring\<close>











subsection \<open>Construction and the default config\<close>

text \<open>
  C8. When the payload has no \<^verbatim>\<open>config\<close> key, the session's config is the derived
  default: \<^verbatim>\<open>durationMinutes\<close> and \<^verbatim>\<open>totalMarks\<close> are the number of questions
  (34 when there are none), \<^verbatim>\<open>marksPerQuestion\<close> is 1 and \<^verbatim>\<open>negativeMarking\<close> is
  0.25. The witness is a payload of 40 questions: 40, 40, 1, 0.25.
\<close>

theorem default_config_when_absent:
  assumes "data_config d = CUndefined"
  shows "config (construct t0 t1 d) =
     CObj \<lparr>testName = Some ''General Mock Test'', testId = Some ''DEFAULT001'',
           durationMinutes = Some (if length (data_questions d) = 0 then 34
                                   else of_nat (length (data_questions d))),
           totalMarks = Some (if length (data_questions d) = 0 then 34
                              else of_nat (length (data_questions d))),
           marksPerQuestion = Some 1, negativeMarking = Some (1 / 4),
           nameDisplay = Some ''User''\<rparr>"
  using assms by (simp add: construct_def getDefaultConfig_def Let_def)

theorem default_config_when_absent_witness:
  "data_config exData40 = CUndefined \<and> config (construct 0 0 exData40) =
     CObj \<lparr>testName = Some ''General Mock Test'', testId = Some ''DEFAULT001'',
           durationMinutes = Some 40, totalMarks = Some 40,
           marksPerQuestion = Some 1, negativeMarking = Some (1 / 4),
           nameDisplay = Some ''User''\<rparr>"
proof -
  have h: "data_config exData40 = CUndefined" by (simp add: exData40_def)
  have l: "length (data_questions exData40) = 40" by (simp add: exData40_def)
  from default_config_when_absent [OF h, of 0 0] h l show ?thesis by simp
qed

lemma falsy_cases:
  "(\<not> truthy v) = (v = CUndefined \<or> v = CNull \<or> v = CBool False \<or> v = CNum 0 \<or> v = CStr [])"
  by (cases v) auto

text \<open>
  C10. The constructor takes the derived default whenever \<^verbatim>\<open>data.config\<close> is falsy,
  that is absent, \<^verbatim>\<open>null\<close>, \<^verbatim>\<open>false\<close>, 0 or the empty string, and otherwise keeps
  the supplied value as it is: a config object is stored unchanged, so a field it lacks
  stays missing.
\<close>

theorem config_or_default:
  "(\<not> truthy (data_config d) \<longrightarrow>
      config (construct t0 t1 d) = CObj (getDefaultConfig (Some (data_questions d))))
   \<and> (truthy (data_config d) \<longrightarrow> config (construct t0 t1 d) = data_config d)
   \<and> (data_config d = CObj c \<longrightarrow>
        config (construct t0 t1 d) = CObj c
        \<and> cfg_read marksPerQuestion (config (construct t0 t1 d)) = Inr (marksPerQuestion c)
        \<and> cfg_read durationMinutes (config (construct t0 t1 d)) = Inr (durationMinutes c))
   \<and> ((\<not> truthy v) =
        (v = CUndefined \<or> v = CNull \<or> v = CBool False \<or> v = CNum 0 \<or> v = CStr []))"
  by (simp add: construct_def Let_def falsy_cases)

theorem config_or_default_witness:
  "\<not> truthy (data_config exDataNull)
   \<and> config (construct 0 0 exDataNull) = CObj (getDefaultConfig (Some [exQ (Idx 0)]))
   \<and> truthy (data_config exDataPartial)
   \<and> config (construct 0 0 exDataPartial) = CObj exPartialCfg
   \<and> cfg_read marksPerQuestion (config (construct 0 0 exDataPartial)) = Inr None
   \<and> cfg_read durationMinutes (config (construct 0 0 exDataPartial)) = Inr None"
proof -
  have n: "\<not> truthy (data_config exDataNull)" by (simp add: exDataNull_def)
  have q: "data_questions exDataNull = [exQ (Idx 0)]" by (simp add: exDataNull_def)
  have p: "data_config exDataPartial = CObj exPartialCfg" by (simp add: exDataPartial_def)
  have f: "marksPerQuestion exPartialCfg = None" "durationMinutes exPartialCfg = None"
    by (simp_all add: exPartialCfg_def)
  from config_or_default [of exDataNull 0 0 exPartialCfg CNull]
       config_or_default [of exDataPartial 0 0 exPartialCfg CNull]
  show ?thesis using n q p f by simp
qed

subsection \<open>Selecting an option\<close>

text \<open>
  C4, as amended. Before submission, one call \<^verbatim>\<open>selOpt(k, i)\<close> sets \<^verbatim>\<open>ans[i]\<close> to
  \<open>k\<close> unless it already is \<open>k\<close>, in which case it clears it to null. Two calls in
  succession leave \<^verbatim>\<open>ans[i]\<close> null when it was not \<open>k\<close> before the first call, and
  leave it \<open>k\<close> when it was \<open>k\<close>.
\<close>

theorem selOpt_toggle:
  assumes "\<not> sub s"
  shows "ans (snd (selOpt k i s)) i = (if ans s i = Idx k then Null else Idx k)
       \<and> ans (snd (selOpt k i (snd (selOpt k i s)))) i
           = (if ans s i = Idx k then Idx k else Null)"
  using assms by (simp add: selOpt_def Let_def)

lemma exStart2_fields:
  "sub exStart2 = False" "qs exStart2 = [exQ (Idx 0), exQ (Idx 1)]" "curQ exStart2 = 0"
  "lastQTime exStart2 = 0" "startT exStart2 = 0" "timer exStart2 = True"
  by (simp_all add: exStart2_def init_def loadQ_def startTimer_def construct_def exData2_def
      Let_def)

lemma exStart2_ans: "ans exStart2 0 = Null" "ans exStart2 1 = Null"
  by (simp_all add: exStart2_def init_def loadQ_def startTimer_def construct_def exData2_def
      Let_def filled_def)

theorem selOpt_toggle_witness:
  "\<not> sub exStart2 \<and> ans (snd (selOpt 1 0 exStart2)) 0 = Idx 1
   \<and> ans (snd (selOpt 1 0 (snd (selOpt 1 0 exStart2)))) 0 = Null"
proof -
  have h: "\<not> sub exStart2" by (simp add: exStart2_fields)
  from selOpt_toggle [OF h, of 1 0] show ?thesis using h by (simp add: exStart2_ans)
qed

text \<open>
  The claim as stated fails when option 1 of question 0 is already selected: two more calls
  \<^verbatim>\<open>selOpt(1, 0)\<close> leave it selected, not null.
\<close>

theorem selOpt_twice_counterexample:
  "\<not> sub (snd (selOpt 1 0 exStart2))
   \<and> ans (snd (selOpt 1 0 (snd (selOpt 1 0 (snd (selOpt 1 0 exStart2)))))) 0 = Idx 1"
  by (simp add: selOpt_def Let_def exStart2_fields exStart2_ans)

subsection \<open>After submission\<close>

text \<open>
  C5. Once \<^verbatim>\<open>sub\<close> is set, \<^verbatim>\<open>selOpt\<close> (for every question and option),
  \<^verbatim>\<open>toggleReview\<close> and \<^verbatim>\<open>subTest\<close> return at once and leave the whole state, hence
  the answers, the review flags and the shown result, as it is. \<^verbatim>\<open>subTest\<close> always leaves
  \<^verbatim>\<open>sub\<close> set, so a second call is such a no-op and the result of the first call stays.
  A new session has \<^verbatim>\<open>sub\<close> false, and no event resets it.
\<close>

theorem submitted_is_frozen:
  "(sub s \<longrightarrow> selOpt k i s = (None, s) \<and> toggleReview s = s \<and> subTest a b s = (None, s))
   \<and> sub (snd (subTest now now2 s))
   \<and> subTest a b (snd (subTest now now2 s)) = (None, snd (subTest now now2 s))
   \<and> shown (snd (subTest a b (snd (subTest now now2 s)))) = shown (snd (subTest now now2 s))
   \<and> (sub s \<longrightarrow> sub (step te s) \<and> sub (run es s))
   \<and> \<not> sub (construct t0 t1 d)"
  by (simp add: selOpt_def toggleReview_def subTest_noop sub_subTest sub_step sub_run
      construct_def Let_def)

theorem submitted_is_frozen_witness:
  "sub exSubmitted2
   \<and> selOpt 2 0 exSubmitted2 = (None, exSubmitted2)
   \<and> toggleReview exSubmitted2 = exSubmitted2
   \<and> subTest 7000 7000 exSubmitted2 = (None, exSubmitted2)
   \<and> sub (step (8000, 8000, Nav 1) exSubmitted2)
   \<and> sub (run [(8000, 8000, Nav 1), (9000, 9000, ConfirmSub True)] exSubmitted2)"
proof -
  have h: "sub exSubmitted2"
    by (simp add: exSubmitted2_def step_def confirmSub_def sub_subTest)
  from submitted_is_frozen [of exSubmitted2 2 0 7000 7000 0 0 "(8000, 8000, Nav 1)"
         "[(8000, 8000, Nav 1), (9000, 9000, ConfirmSub True)]" 0 0 exData2]
  show ?thesis using h by blast
qed

subsection \<open>What the operations leave alone\<close>

lemma timeLeft_loadQ: "timeLeft (snd (loadQ now idx s)) = timeLeft s"
  by (simp add: loadQ_def addTime_def Let_def)

lemma timer_loadQ: "timer (snd (loadQ now idx s)) = timer s"
  by (simp add: loadQ_def addTime_def Let_def)

lemma qs_loadQ: "qs (snd (loadQ now idx s)) = qs s"
  by (simp add: loadQ_def addTime_def Let_def)

lemma curQ_loadQ: "curQ (snd (loadQ now idx s)) = idx"
  by (simp add: loadQ_def addTime_def Let_def)

lemma timeLeft_subTest: "timeLeft (snd (subTest now now2 s)) = timeLeft s"
  by (simp add: subTest_def Let_def stopTimers_def addTime_def showResults_def timeLeft_loadQ
      split: sum.splits)

lemma timer_subTest: "\<not> sub s \<Longrightarrow> \<not> timer (snd (subTest now now2 s))"
  by (simp add: subTest_def Let_def stopTimers_def addTime_def showResults_def timer_loadQ
      split: sum.splits)

lemma timer_subTest_le: "\<not> timer s \<Longrightarrow> \<not> timer (snd (subTest now now2 s))"
  by (cases "sub s") (simp_all add: timer_subTest subTest_noop)

lemma qs_subTest: "qs (snd (subTest now now2 s)) = qs s"
  by (simp add: subTest_def Let_def stopTimers_def addTime_def showResults_def qs_loadQ
      split: sum.splits)

lemma curQ_subTest: "curQ (snd (subTest now now2 s)) = curQ s"
  by (simp add: subTest_def Let_def stopTimers_def addTime_def showResults_def curQ_loadQ
      split: sum.splits)

lemma calcResults_cong:
  "config s' = config s \<Longrightarrow> qs s' = qs s \<Longrightarrow> ans s' = ans s \<Longrightarrow> startT s' = startT s \<Longrightarrow>
   calcResults now s' = calcResults now s"
  by (simp add: calcResults_def split: sum.splits)

lemma shown_loadQ: "shown (snd (loadQ now idx s)) = shown s"
  by (simp add: loadQ_def addTime_def Let_def)

lemma shown_subTest:
  "\<not> sub s \<Longrightarrow> shown (snd (subTest now now2 s)) =
      (case calcResults now2 s of Inr r \<Rightarrow> Some r | Inl e \<Rightarrow> shown s)"
proof -
  assume ns: "\<not> sub s"
  let ?s2 = "stopTimers ((addTime now s)\<lparr>sub := True\<rparr>)"
  have c: "calcResults now2 ?s2 = calcResults now2 s"
    by (rule calcResults_cong) (simp_all add: stopTimers_def addTime_def)
  have "shown (stopTimers ((addTime now s)\<lparr>sub := True\<rparr>)) = shown s"
    by (simp add: stopTimers_def addTime_def)
  then show ?thesis using ns
    by (simp add: subTest_def Let_def c showResults_def shown_loadQ split: sum.splits)
qed

lemma subTest_timer_off:
  assumes "\<not> sub s"
  shows "subTest now now2 (s\<lparr>timer := False\<rparr>) = subTest now now2 s"
proof -
  have e: "stopTimers ((addTime now (s\<lparr>timer := False\<rparr>))\<lparr>sub := True\<rparr>)
         = stopTimers ((addTime now s)\<lparr>sub := True\<rparr>)"
    by (simp add: stopTimers_def addTime_def)
  show ?thesis using assms by (simp add: subTest_def Let_def e split: sum.splits)
qed

lemma tick_forced:
  assumes "\<not> sub s" and "timeLeft s = Num r" and "r - 1 \<le> 0"
  shows "tick now now2 s = subTest now now2 (s\<lparr>timeLeft := Num (r - 1)\<rparr>)"
proof -
  have "\<not> sub (s\<lparr>timeLeft := Num (r - 1)\<rparr>)" using assms by simp
  from subTest_timer_off [OF this] show ?thesis using assms
    by (simp add: tick_def Let_def)
qed

lemma timer_handle: "\<not> timer s \<Longrightarrow> \<not> timer (snd (handle now now2 e s))"
  by (cases e)
     (simp_all add: nav_def goToQ_def selOpt_def toggleReview_def setLang_def toggleTheme_def
        confirmSub_def review_def timer_loadQ timer_subTest_le Let_def)

lemma timer_step: "\<not> timer s \<Longrightarrow> \<not> timer (step te s)"
  by (cases te) (simp add: step_def timer_handle)

lemma timer_run: "\<not> timer s \<Longrightarrow> \<not> timer (run es s)"
  by (induction es arbitrary: s) (simp_all add: timer_step)

lemma sub_timer_handle:
  assumes "sub s \<longrightarrow> \<not> timer s"
  shows "sub (snd (handle now now2 e s)) \<longrightarrow> \<not> timer (snd (handle now now2 e s))"
proof (cases "sub s")
  case True
  with assms show ?thesis by (simp add: timer_handle)
next
  case False
  show ?thesis
  proof (cases e)
    case Tick
    have "\<not> sub (s\<lparr>timeLeft := js_sub (timeLeft s) (Num 1), timer := False\<rparr>)"
      using False by simp
    from timer_subTest [OF this] show ?thesis using False Tick
      by (simp add: tick_def Let_def)
  next
    case (ConfirmSub b)
    show ?thesis using False ConfirmSub by (simp add: confirmSub_def timer_subTest)
  qed (use False in \<open>simp_all add: nav_def goToQ_def selOpt_def toggleReview_def setLang_def
        toggleTheme_def review_def sub_loadQ Let_def\<close>)
qed

subsection \<open>The countdown\<close>

lemma js_round_of_int: "js_round (of_int k) = k"
  by (simp add: js_round_def floor_eq_iff)

lemma tick_running:
  assumes "timeLeft s = Num r" and "0 < r - 1"
  shows "tick now now2 s = (None, s\<lparr>timeLeft := Num (r - 1)\<rparr>)"
  using assms by (simp add: tick_def Let_def)

lemma ticks_count_down:
  "timer s \<Longrightarrow> timeLeft s = Num r \<Longrightarrow> of_nat n < r \<Longrightarrow>
   run (replicate n (now, now2, Tick)) s = s\<lparr>timeLeft := Num (r - of_nat n)\<rparr>"
proof (induction n arbitrary: s r)
  case 0
  then show ?case by simp
next
  case (Suc n)
  let ?s1 = "s\<lparr>timeLeft := Num (r - 1)\<rparr>"
  from Suc.prems have r1: "0 < r - 1" by simp
  have st: "step (now, now2, Tick) s = ?s1"
    using Suc.prems(1) tick_running [OF Suc.prems(2) r1] by (simp add: step_def)
  have "run (replicate n (now, now2, Tick)) ?s1 = ?s1\<lparr>timeLeft := Num (r - 1 - of_nat n)\<rparr>"
    using Suc.prems by (intro Suc.IH) simp_all
  then show ?case using st by (simp add: algebra_simps)
qed

lemma sub_timer_run:
  "(sub s \<longrightarrow> \<not> timer s) \<Longrightarrow> sub (run es s) \<longrightarrow> \<not> timer (run es s)"
proof (induction es arbitrary: s)
  case Nil
  then show ?case by simp
next
  case (Cons te es)
  obtain a b e where te: "te = (a, b, e)" by (cases te)
  from sub_timer_handle [OF Cons.prems, of a b e]
  have "sub (step te s) \<longrightarrow> \<not> timer (step te s)" by (simp add: te step_def)
  from Cons.IH [OF this] show ?case by simp
qed

lemma init_fields:
  "sub (snd (init t (construct t0 t1 d))) = False"
  "curQ (snd (init t (construct t0 t1 d))) = 0"
  "qs (snd (init t (construct t0 t1 d))) = data_questions d"
  by (simp_all add: init_def loadQ_def startTimer_def construct_def Let_def)

text \<open>
  C7. A tick takes exactly one off \<^verbatim>\<open>timeLeft\<close>, so \<open>n\<close> ticks of a running clock
  that reads more than \<open>n\<close> leave it \<open>n\<close> lower and change nothing else. The tick that
  brings an unsubmitted session's clock to 0 (or below) is a forced submission: it is
  \<^verbatim>\<open>subTest\<close> on the session with the clock at its new value, \<^verbatim>\<open>sub\<close> becomes true,
  the interval is cleared, and the result shown is the one a manual submission at that
  moment shows. With the interval cleared no tick runs and no event schedules it again; in
  every state reached from a started session, \<^verbatim>\<open>sub\<close> implies that the interval is
  cleared.
\<close>

theorem countdown_tick:
  "timeLeft (snd (tick now now2 s)) = js_sub (timeLeft s) (Num 1)
   \<and> (timer s \<and> timeLeft s = Num r \<and> of_nat n < r \<longrightarrow>
        run (replicate n (now, now2, Tick)) s = s\<lparr>timeLeft := Num (r - of_nat n)\<rparr>)
   \<and> (\<not> sub s \<and> timeLeft s = Num r \<and> r - 1 \<le> 0 \<longrightarrow>
        tick now now2 s = subTest now now2 (s\<lparr>timeLeft := Num (r - 1)\<rparr>)
        \<and> sub (snd (tick now now2 s)) \<and> \<not> timer (snd (tick now now2 s))
        \<and> shown (snd (tick now now2 s)) =
            (case calcResults now2 s of Inr res \<Rightarrow> Some res | Inl e \<Rightarrow> shown s)
        \<and> shown (snd (subTest now now2 s)) =
            (case calcResults now2 s of Inr res \<Rightarrow> Some res | Inl e \<Rightarrow> shown s))
   \<and> (\<not> timer s \<longrightarrow>
        handle now now2 Tick s = (None, s) \<and> \<not> timer (step te s) \<and> \<not> timer (run es s))
   \<and> (sub (run es (snd (init t (construct t0 t1 d)))) \<longrightarrow>
        \<not> timer (run es (snd (init t (construct t0 t1 d)))))"
proof -
  have A: "timeLeft (snd (tick now now2 s)) = js_sub (timeLeft s) (Num 1)"
    by (simp add: tick_def Let_def timeLeft_subTest)
  have B: "timer s \<and> timeLeft s = Num r \<and> of_nat n < r \<longrightarrow>
        run (replicate n (now, now2, Tick)) s = s\<lparr>timeLeft := Num (r - of_nat n)\<rparr>"
    using ticks_count_down by blast
  have C: "\<not> sub s \<and> timeLeft s = Num r \<and> r - 1 \<le> 0 \<longrightarrow>
        tick now now2 s = subTest now now2 (s\<lparr>timeLeft := Num (r - 1)\<rparr>)
        \<and> sub (snd (tick now now2 s)) \<and> \<not> timer (snd (tick now now2 s))
        \<and> shown (snd (tick now now2 s)) =
            (case calcResults now2 s of Inr res \<Rightarrow> Some res | Inl e \<Rightarrow> shown s)
        \<and> shown (snd (subTest now now2 s)) =
            (case calcResults now2 s of Inr res \<Rightarrow> Some res | Inl e \<Rightarrow> shown s)"
  proof (intro impI)
    assume h: "\<not> sub s \<and> timeLeft s = Num r \<and> r - 1 \<le> 0"
    let ?s1 = "s\<lparr>timeLeft := Num (r - 1)\<rparr>"
    have ns1: "\<not> sub ?s1" using h by simp
    have t: "tick now now2 s = subTest now now2 ?s1"
      using h by (intro tick_forced) simp_all
    have c: "calcResults now2 ?s1 = calcResults now2 s"
      by (rule calcResults_cong) simp_all
    have sh: "shown (snd (subTest now now2 ?s1)) =
            (case calcResults now2 s of Inr res \<Rightarrow> Some res | Inl e \<Rightarrow> shown s)"
      using shown_subTest [OF ns1, of now now2] by (simp add: c split: sum.splits)
    show "tick now now2 s = subTest now now2 ?s1
        \<and> sub (snd (tick now now2 s)) \<and> \<not> timer (snd (tick now now2 s))
        \<and> shown (snd (tick now now2 s)) =
            (case calcResults now2 s of Inr res \<Rightarrow> Some res | Inl e \<Rightarrow> shown s)
        \<and> shown (snd (subTest now now2 s)) =
            (case calcResults now2 s of Inr res \<Rightarrow> Some res | Inl e \<Rightarrow> shown s)"
      using t sh h timer_subTest [OF ns1, of now now2] shown_subTest [of s now now2]
      by (simp add: sub_subTest)
  qed
  have D: "\<not> timer s \<longrightarrow>
        handle now now2 Tick s = (None, s) \<and> \<not> timer (step te s) \<and> \<not> timer (run es s)"
    by (simp add: timer_step timer_run)
  have E: "sub (run es (snd (init t (construct t0 t1 d)))) \<longrightarrow>
        \<not> timer (run es (snd (init t (construct t0 t1 d))))"
    by (rule sub_timer_run) (simp add: init_fields)
  from A B C D E show ?thesis by blast
qed

lemma exStart2_timeLeft: "timeLeft exStart2 = Num 120"
  by (simp add: exStart2_def init_def loadQ_def startTimer_def construct_def exData2_def
      Let_def getDefaultConfig_def)

lemma exStart2_config: "config exStart2 = CObj (getDefaultConfig (Some [exQ (Idx 0), exQ (Idx 1)]))"
  by (simp add: exStart2_def init_def loadQ_def startTimer_def construct_def exData2_def
      Let_def)

lemma exStart2_calc:
  "calcResults 120000 (exStart2\<lparr>timeLeft := Num 1\<rparr>) =
     Inr \<lparr>score = Num 0, correct = 0, incorrect = 0, unattempted = 2, timeTaken = 2\<rparr>"
  using js_round_of_int [of 2]
  by (simp add: calcResults_def exStart2_config exStart2_fields exStart2_ans getDefaultConfig_def
      Let_def tallyQ_def)

theorem countdown_tick_witness:
  "timer exStart2 \<and> timeLeft exStart2 = Num 120
   \<and> run (replicate 119 (1000, 1000, Tick)) exStart2 = exStart2\<lparr>timeLeft := Num 1\<rparr>
   \<and> \<not> sub (exStart2\<lparr>timeLeft := Num 1\<rparr>)
   \<and> timeLeft (snd (tick 120000 120000 (exStart2\<lparr>timeLeft := Num 1\<rparr>))) = Num 0
   \<and> sub (snd (tick 120000 120000 (exStart2\<lparr>timeLeft := Num 1\<rparr>)))
   \<and> \<not> timer (snd (tick 120000 120000 (exStart2\<lparr>timeLeft := Num 1\<rparr>)))
   \<and> shown (snd (tick 120000 120000 (exStart2\<lparr>timeLeft := Num 1\<rparr>))) =
       Some \<lparr>score = Num 0, correct = 0, incorrect = 0, unattempted = 2, timeTaken = 2\<rparr>
   \<and> handle 121000 121000 Tick (snd (tick 120000 120000 (exStart2\<lparr>timeLeft := Num 1\<rparr>)))
       = (None, snd (tick 120000 120000 (exStart2\<lparr>timeLeft := Num 1\<rparr>)))"
proof -
  let ?s = "exStart2\<lparr>timeLeft := Num 1\<rparr>"
  let ?s' = "snd (tick 120000 120000 ?s)"
  have a: "timer exStart2" "timeLeft exStart2 = Num 120" "(of_nat 119 :: rat) < 120"
    by (simp_all add: exStart2_fields exStart2_timeLeft)
  have b: "\<not> sub ?s" "timeLeft ?s = Num 1" "(1::rat) - 1 \<le> 0"
    by (simp_all add: exStart2_fields)
  note i1 = countdown_tick [of 1000 1000 exStart2 120 119 "(0, 0, Tick)" "[]" 0 0 0 exData2]
  have r: "run (replicate 119 (1000, 1000, Tick)) exStart2
             = exStart2\<lparr>timeLeft := Num (120 - of_nat 119)\<rparr>"
    using i1 a by blast
  note i2 = countdown_tick [of 120000 120000 ?s 1 0 "(0, 0, Tick)" "[]" 0 0 0 exData2]
  have f1: "timeLeft ?s' = js_sub (timeLeft ?s) (Num 1)" using i2 by blast
  have f2: "sub ?s' \<and> \<not> timer ?s'
    \<and> shown ?s' = (case calcResults 120000 ?s of Inr res \<Rightarrow> Some res | Inl e \<Rightarrow> shown ?s)"
    using i2 b by blast
  note i3 = countdown_tick [of 121000 121000 ?s' 0 0 "(0, 0, Tick)" "[]" 0 0 0 exData2]
  have g: "handle 121000 121000 Tick ?s' = (None, ?s')" using i3 f2 by blast
  show ?thesis using a b r f1 f2 g by (simp add: exStart2_calc)
qed

subsection \<open>Navigation\<close>

lemma qs_handle: "qs (snd (handle now now2 e s)) = qs s"
  by (cases e)
     (simp_all add: nav_def goToQ_def selOpt_def toggleReview_def setLang_def toggleTheme_def
        tick_def confirmSub_def review_def qs_loadQ qs_subTest Let_def)

lemma qs_step: "qs (step te s) = qs s"
  by (cases te) (simp add: step_def qs_handle)

lemma qs_run: "qs (run es s) = qs s"
  by (induction es arbitrary: s) (simp_all add: qs_step)

lemma curQ_handle:
  assumes "in_range s (curQ s)" and "wired s e"
  shows "in_range s (curQ (snd (handle now now2 e s)))"
proof (cases e)
  case (Nav dir)
  then show ?thesis using assms by (simp add: nav_def Let_def curQ_loadQ in_range_def)
next
  case (GoToQ idx)
  then show ?thesis using assms by (simp add: goToQ_def curQ_loadQ)
next
  case (SelOpt k i)
  then show ?thesis using assms by (simp add: selOpt_def Let_def)
next
  case ToggleReview
  then show ?thesis using assms by (simp add: toggleReview_def)
next
  case (SetLang b)
  then show ?thesis using assms by (simp add: setLang_def Let_def curQ_loadQ)
next
  case ToggleTheme
  then show ?thesis using assms by (simp add: toggleTheme_def Let_def curQ_loadQ)
next
  case Tick
  then show ?thesis using assms by (simp add: tick_def Let_def curQ_subTest)
next
  case (ConfirmSub b)
  then show ?thesis using assms by (simp add: confirmSub_def curQ_subTest)
next
  case Review
  then show ?thesis using assms by (auto simp: review_def curQ_loadQ in_range_def)
qed

lemma in_range_step:
  assumes "in_range s (curQ s)" and "wired s (snd (snd te))"
  shows "in_range (step te s) (curQ (step te s))"
proof -
  obtain a b e where te: "te = (a, b, e)" by (cases te)
  from curQ_handle [OF assms(1), of e a b] assms(2) te
  show ?thesis by (simp add: step_def in_range_def qs_handle)
qed

lemma in_range_run:
  "in_range s (curQ s) \<Longrightarrow> wired_run es s \<Longrightarrow> in_range (run es s) (curQ (run es s))"
proof (induction es arbitrary: s)
  case Nil
  then show ?case by simp
next
  case (Cons te es)
  from Cons.prems have w: "wired s (snd (snd te))" and wr: "wired_run es (step te s)" by simp_all
  from in_range_step [OF Cons.prems(1) w] have "in_range (step te s) (curQ (step te s))" .
  from Cons.IH [OF this wr] show ?case by simp
qed

text \<open>
  C2, as amended. A relative move \<^verbatim>\<open>nav(dir)\<close> whose target lies outside \<open>[0, N)\<close> is
  rejected silently and changes nothing at all. \<^verbatim>\<open>goToQ\<close> itself checks no bounds; it
  is called only by the grid cells, one per question. Every event the page can deliver
  keeps \<^verbatim>\<open>curQ\<close> within \<open>[0, N)\<close>, so for a payload with at least one question
  \<^verbatim>\<open>curQ\<close> lies in \<open>[0, N)\<close> in every state reached through the page.
\<close>

theorem navigation_keeps_curQ_in_range:
  "(\<not> in_range s (curQ s + dir) \<longrightarrow> nav now dir s = (None, s))
   \<and> (in_range s (curQ s) \<and> wired s e \<longrightarrow>
        in_range (step (now, now2, e) s) (curQ (step (now, now2, e) s)))
   \<and> (data_questions d \<noteq> [] \<and> wired_run es (snd (init t (construct t0 t1 d))) \<longrightarrow>
        in_range (run es (snd (init t (construct t0 t1 d))))
                 (curQ (run es (snd (init t (construct t0 t1 d))))))"
proof -
  have A: "\<not> in_range s (curQ s + dir) \<longrightarrow> nav now dir s = (None, s)"
    by (simp add: nav_def in_range_def Let_def)
  have B: "in_range s (curQ s) \<and> wired s e \<longrightarrow>
        in_range (step (now, now2, e) s) (curQ (step (now, now2, e) s))"
    using in_range_step [of s "(now, now2, e)"] by simp
  have C: "data_questions d \<noteq> [] \<and> wired_run es (snd (init t (construct t0 t1 d))) \<longrightarrow>
        in_range (run es (snd (init t (construct t0 t1 d))))
                 (curQ (run es (snd (init t (construct t0 t1 d)))))"
  proof (intro impI)
    assume h: "data_questions d \<noteq> [] \<and> wired_run es (snd (init t (construct t0 t1 d)))"
    let ?s0 = "snd (init t (construct t0 t1 d))"
    have "in_range ?s0 (curQ ?s0)" using h by (simp add: in_range_def init_fields)
    from in_range_run [OF this] h show "in_range (run es ?s0) (curQ (run es ?s0))" by blast
  qed
  from A B C show ?thesis by blast
qed

lemma exTour_wired: "wired_run exTour exStart2"
  by (simp add: exTour_def step_def exStart2_fields nav_def Let_def loadQ_def addTime_def
      in_range_def selOpt_def exQ_def goToQ_def)

theorem navigation_keeps_curQ_in_range_witness:
  "\<not> in_range exStart2 (curQ exStart2 + (- 1))
   \<and> nav 1000 (- 1) exStart2 = (None, exStart2)
   \<and> data_questions exData2 \<noteq> [] \<and> wired_run exTour (snd (init 0 (construct 0 0 exData2)))
   \<and> in_range (run exTour (snd (init 0 (construct 0 0 exData2))))
               (curQ (run exTour (snd (init 0 (construct 0 0 exData2)))))"
proof -
  have a: "\<not> in_range exStart2 (curQ exStart2 + (- 1))"
    by (simp add: in_range_def exStart2_fields)
  have b: "data_questions exData2 \<noteq> []" by (simp add: exData2_def)
  have c: "wired_run exTour (snd (init 0 (construct 0 0 exData2)))"
    using exTour_wired by (simp add: exStart2_def)
  note i = navigation_keeps_curQ_in_range [of exStart2 "- 1" 1000 ToggleReview 1000 exData2 exTour 0 0 0]
  from i a b c show ?thesis by blast
qed

text \<open>
  The claim as stated fails for a direct request: \<^verbatim>\<open>goToQ(5)\<close> on two questions moves
  \<^verbatim>\<open>curQ\<close> to 5.
\<close>

theorem goToQ_out_of_range_counterexample:
  "\<not> in_range exStart2 5 \<and> curQ exStart2 = 0
   \<and> curQ (snd (goToQ 1000 5 exStart2)) = 5
   \<and> \<not> in_range (snd (goToQ 1000 5 exStart2)) (curQ (snd (goToQ 1000 5 exStart2)))"
  by (simp add: goToQ_def loadQ_def Let_def in_range_def exStart2_fields addTime_def)

subsection \<open>Timing after submission\<close>

lemma exStart2_timeSpent: "timeSpent exStart2 0 = Some (Num 0)"
  by (simp add: exStart2_def init_def loadQ_def startTimer_def construct_def exData2_def
      Let_def filled_def)

text \<open>
  C3, evaluated on the code. Two questions, submitted 5 seconds after the start: question 0
  has 5 seconds and the interval is cleared. Pressing next at 9 seconds, while reviewing,
  takes question 0 to 14 seconds: \<^verbatim>\<open>loadQ\<close> records time whether or not the test is
  submitted, and \<^verbatim>\<open>subTest\<close> did not move \<^verbatim>\<open>lastQTime\<close>, so the first 5 seconds
  are added a second time.
\<close>

theorem review_navigation_adds_time:
  "sub exSubmitted2 \<and> \<not> timer exSubmitted2
   \<and> timeSpent exSubmitted2 0 = Some (Num 5)
   \<and> timeSpent (step (9000, 9000, Nav 1) exSubmitted2) 0 = Some (Num 14)"
  by (simp add: exSubmitted2_def step_def confirmSub_def subTest_def Let_def addTime_def
      stopTimers_def showResults_def loadQ_def nav_def in_range_def calcResults_def
      exStart2_fields exStart2_config exStart2_timeSpent split: sum.splits)

subsection \<open>A correct id out of bounds\<close>

lemma ans_loadQ: "ans (snd (loadQ now idx s)) = ans s"
  by (simp add: loadQ_def addTime_def Let_def)

lemma ans_subTest: "ans (snd (subTest now now2 s)) = ans s"
  by (simp add: subTest_def Let_def stopTimers_def addTime_def showResults_def ans_loadQ
      split: sum.splits)

lemma slotValid_handle:
  assumes inv: "\<forall>i < length (qs s). slotValid (qs s ! i) (ans s (int i))"
    and w: "wired s e"
  shows "\<forall>i < length (qs s). slotValid (qs s ! i) (ans (snd (handle now now2 e s)) (int i))"
proof (cases e)
  case (SelOpt k j)
  show ?thesis
  proof (intro allI impI)
    fix i assume i: "i < length (qs s)"
    show "slotValid (qs s ! i) (ans (snd (handle now now2 e s)) (int i))"
    proof (cases "int i = j")
      case True
      then have "nat j = i" by simp
      then show ?thesis using SelOpt w True i
        by (auto simp: selOpt_def Let_def slotValid_def split: option.splits)
    next
      case False
      then show ?thesis using SelOpt inv i by (simp add: selOpt_def Let_def)
    qed
  qed
qed (use inv in \<open>simp_all add: nav_def goToQ_def toggleReview_def setLang_def toggleTheme_def
        tick_def confirmSub_def review_def ans_loadQ ans_subTest Let_def\<close>)

lemma slotValid_run:
  "\<forall>i < length (qs s). slotValid (qs s ! i) (ans s (int i)) \<Longrightarrow> wired_run es s \<Longrightarrow>
   \<forall>i < length (qs s). slotValid (qs s ! i) (ans (run es s) (int i))"
proof (induction es arbitrary: s)
  case Nil
  then show ?case by simp
next
  case (Cons te es)
  obtain a b e where te: "te = (a, b, e)" by (cases te)
  from Cons.prems have w: "wired s e" and wr: "wired_run es (step te s)" by (simp_all add: te)
  from slotValid_handle [OF Cons.prems(1) w, of a b]
  have "\<forall>i < length (qs (step te s)). slotValid (qs (step te s) ! i) (ans (step te s) (int i))"
    by (simp add: te step_def qs_handle)
  from Cons.IH [OF this wr] show ?case by (simp add: qs_step)
qed

lemma slotValid_init:
  "i < length (data_questions d) \<Longrightarrow>
   slotValid (data_questions d ! i) (ans (snd (init t (construct t0 t1 d))) (int i))"
  by (simp add: init_def loadQ_def startTimer_def construct_def Let_def filled_def slotValid_def)

text \<open>
  C9, as amended. For a question whose correct id is present but out of bounds for its
  options, an answer that is the index of one of its options is scored as incorrect (the
  score loses \<^verbatim>\<open>negativeMarking\<close>), and a null answer as unattempted. In every state
  reached through the page each answer slot is null or such an index. \<^verbatim>\<open>validateData\<close>
  reports the question, and neither the constructor nor any event changes the questions.
\<close>

theorem invalid_correct_id_never_correct:
  "(options q = Some opts \<and> correct_option_id q = Idx c \<and> (c < 0 \<or> int (length opts) \<le> c)
      \<and> 0 \<le> a \<and> a < int (length opts) \<longrightarrow>
      tallyQ mp nm (Idx a) (correct_option_id q) r
        = r\<lparr>incorrect := incorrect r + 1, score := js_sub (score r) nm\<rparr>)
   \<and> tallyQ mp nm Null (correct_option_id q) r = r\<lparr>unattempted := unattempted r + 1\<rparr>
   \<and> (wired_run es (snd (init t (construct t0 t1 d))) \<and> i < length (data_questions d) \<longrightarrow>
        slotValid (data_questions d ! i) (ans (run es (snd (init t (construct t0 t1 d)))) (int i)))
   \<and> (i < length questions \<and> options (questions ! i) = Some opts
        \<and> correct_option_id (questions ! i) = Idx c \<and> (c < 0 \<or> int (length opts) \<le> c) \<longrightarrow>
        i \<in> set (validateData questions))
   \<and> qs (construct t0 t1 d) = data_questions d
   \<and> qs (run es s) = qs s"
proof -
  have A: "options q = Some opts \<and> correct_option_id q = Idx c \<and> (c < 0 \<or> int (length opts) \<le> c)
      \<and> 0 \<le> a \<and> a < int (length opts) \<longrightarrow>
      tallyQ mp nm (Idx a) (correct_option_id q) r
        = r\<lparr>incorrect := incorrect r + 1, score := js_sub (score r) nm\<rparr>"
    by (auto simp: tallyQ_def)
  have B: "tallyQ mp nm Null (correct_option_id q) r = r\<lparr>unattempted := unattempted r + 1\<rparr>"
    by (simp add: tallyQ_def)
  have C: "wired_run es (snd (init t (construct t0 t1 d))) \<and> i < length (data_questions d) \<longrightarrow>
        slotValid (data_questions d ! i) (ans (run es (snd (init t (construct t0 t1 d)))) (int i))"
  proof (intro impI)
    let ?s0 = "snd (init t (construct t0 t1 d))"
    assume h: "wired_run es ?s0 \<and> i < length (data_questions d)"
    have "\<forall>i < length (qs ?s0). slotValid (qs ?s0 ! i) (ans ?s0 (int i))"
      by (simp add: init_fields slotValid_init)
    from slotValid_run [OF this] h
    show "slotValid (data_questions d ! i) (ans (run es ?s0) (int i))"
      by (simp add: init_fields)
  qed
  have D: "i < length questions \<and> options (questions ! i) = Some opts
        \<and> correct_option_id (questions ! i) = Idx c \<and> (c < 0 \<or> int (length opts) \<le> c) \<longrightarrow>
        i \<in> set (validateData questions)"
    by (auto simp: validateData_def warnsQ_def)
  have E: "qs (construct t0 t1 d) = data_questions d" by (simp add: construct_def Let_def)
  from A B C D E show ?thesis by (simp add: qs_run)
qed

lemma exBadStart_fields:
  "sub exBadStart = False" "qs exBadStart = [exQ (Idx 7)]" "curQ exBadStart = 0"
  "lastQTime exBadStart = 0" "startT exBadStart = 0" "ans exBadStart 0 = Null"
  "config exBadStart = CObj (getDefaultConfig (Some [exQ (Idx 7)]))"
  by (simp_all add: exBadStart_def init_def loadQ_def startTimer_def construct_def exDataBad_def
      Let_def filled_def)

theorem invalid_correct_id_never_correct_witness:
  "options (exQ (Idx 7)) = Some [''A'', ''B'', ''C'', ''D''] \<and> correct_option_id (exQ (Idx 7)) = Idx 7
   \<and> tallyQ (Num 1) (Num (1 / 4)) (Idx 2) (correct_option_id (exQ (Idx 7)))
        \<lparr>score = Num 0, correct = 0, incorrect = 0, unattempted = 0, timeTaken = 0\<rparr>
      = \<lparr>score = Num (- 1 / 4), correct = 0, incorrect = 1, unattempted = 0, timeTaken = 0\<rparr>
   \<and> wired_run [(1000, 1000, SelOpt 2 0)] (snd (init 0 (construct 0 0 exDataBad)))
   \<and> slotValid (data_questions exDataBad ! 0)
        (ans (run [(1000, 1000, SelOpt 2 0)] (snd (init 0 (construct 0 0 exDataBad)))) (int 0))
   \<and> 0 \<in> set (validateData [exQ (Idx 7)])"
proof -
  let ?r0 = "\<lparr>score = Num 0, correct = 0, incorrect = 0, unattempted = 0, timeTaken = 0\<rparr>"
  have q: "options (exQ (Idx 7)) = Some [''A'', ''B'', ''C'', ''D'']"
    "correct_option_id (exQ (Idx 7)) = Idx 7"
    "(7::int) < 0 \<or> int (length [''A'', ''B'', ''C'', ''D'']) \<le> 7"
    "(0::int) \<le> 2" "(2::int) < int (length [''A'', ''B'', ''C'', ''D''])"
    by (simp_all add: exQ_def)
  have "wired_run [(1000, 1000, SelOpt 2 0)] exBadStart"
    by (simp add: exBadStart_fields in_range_def exQ_def)
  then have w: "wired_run [(1000, 1000, SelOpt 2 0)] (snd (init 0 (construct 0 0 exDataBad)))"
    "(0::nat) < length (data_questions exDataBad)"
    by (simp_all add: exBadStart_def exDataBad_def)
  have v: "(0::nat) < length [exQ (Idx 7)]" "[exQ (Idx 7)] ! 0 = exQ (Idx 7)" by simp_all
  note i = invalid_correct_id_never_correct [of "exQ (Idx 7)" "[''A'', ''B'', ''C'', ''D'']" 7 2
      "Num 1" "Num (1 / 4)" ?r0 "[(1000, 1000, SelOpt 2 0)]" 0 0 0 exDataBad 0 "[exQ (Idx 7)]" exBadStart]
  have t: "tallyQ (Num 1) (Num (1 / 4)) (Idx 2) (correct_option_id (exQ (Idx 7))) ?r0
        = ?r0\<lparr>incorrect := incorrect ?r0 + 1, score := js_sub (score ?r0) (Num (1 / 4))\<rparr>"
    using i q by blast
  have s: "slotValid (data_questions exDataBad ! 0)
        (ans (run [(1000, 1000, SelOpt 2 0)] (snd (init 0 (construct 0 0 exDataBad)))) (int 0))"
    using i w by blast
  have m: "0 \<in> set (validateData [exQ (Idx 7)])"
    using i q v by simp
  show ?thesis using q t s m w by simp
qed

text \<open>
  The claim as stated fails for an answer equal to the invalid id: \<^verbatim>\<open>calcResults\<close>
  compares the two and checks no bounds, so \<^verbatim>\<open>selOpt(7, 0)\<close> on a question with four
  options and correct id 7 is scored as correct.
\<close>

theorem invalid_correct_id_counterexample:
  "options (exQ (Idx 7)) = Some [''A'', ''B'', ''C'', ''D'']
   \<and> shown (run [(0, 0, SelOpt 7 0), (0, 0, ConfirmSub True)] exBadStart)
      = Some \<lparr>score = Num 1, correct = 1, incorrect = 0, unattempted = 0, timeTaken = 0\<rparr>"
  by (simp add: step_def selOpt_def confirmSub_def subTest_def Let_def addTime_def
      stopTimers_def showResults_def loadQ_def in_range_def calcResults_def tallyQ_def
      exBadStart_fields getDefaultConfig_def exQ_def js_round_0 split: sum.splits)

subsection \<open>Time accounting\<close>




















end
